theory Spec2Isabelle
  imports Main "HOL-Library.AList"
begin

section \<open>Values, rows and errors\<close>

text \<open>
  The values that travel between the caller, the store and the backend. Numbers are
  restricted to integers (the filter's \<open>first\<close> and \<open>skip\<close> are GraphQL \<open>Int\<close>s
  and the Boolean codec compares with the integer \<open>1\<close>).
\<close>

datatype jsval =
    JUndefined
  | JNull
  | JBool bool
  | JNum int
  | JStr string
  | JArr "jsval list"

text \<open>
  A \<open>Record<string, unknown>\<close>: the own properties of an object in the order
  \<open>Object.entries\<close> enumerates them. A well-formed object has distinct keys.
\<close>

type_synonym row = "(string \<times> jsval) list"

text \<open>
  One constructor for each place where the code throws, carrying what the message
  interpolates:
  \<^item> \<open>Uninitialized\<close>: "EntityStore has not been initialized with a schema yet";
  \<^item> \<open>EntityNotFoundForId i\<close>: "Entity not found in schema for ID: i";
  \<^item> \<open>DerivedFieldNotFound n f\<close>: "Derived field not found: n.f";
  \<^item> \<open>EntityNotFoundForName n\<close>: "Entity not found in schema for name: n";
  \<^item> \<open>SqlOperatorsNotFound t\<close>: "SQL operators not found for filter type: t";
  \<^item> \<open>UnknownWhereCondition f c\<close>: "Invalid query: Unknown where condition: f_c";
  \<^item> \<open>TypeError\<close>: the runtime's error for \<open>Object.entries(undefined)\<close>;
  \<^item> \<open>ParseError\<close>: what \<open>JSON.parse\<close> throws;
  \<^item> \<open>BackendError m\<close>: a rejection of \<open>pool.query\<close>.
\<close>

datatype error =
    Uninitialized
  | EntityNotFoundForId string
  | DerivedFieldNotFound string string
  | EntityNotFoundForName string
  | SqlOperatorsNotFound string
  | UnknownWhereCondition string string
  | TypeError
  | ParseError
  | BackendError string

section \<open>Schema model\<close>

text \<open>
  Modelled from the spec: the declarations of \<open>FieldKind\<close>, \<open>Schema\<close> and the field
  types live in \<open>@/schema/types\<close>, which is not among the sources. The store reads
  \<open>kind\<close>, \<open>name\<close>, \<open>baseGqlType\<close>, \<open>migrateUpStatement\<close>, \<open>derivedFromEntityName\<close>
  and \<open>derivedFromFieldName\<close> of a field, \<open>id\<close>, \<open>name\<close>, \<open>fields\<close> and
  \<open>fieldByName\<close> of an entity and \<open>entities\<close> of a schema; the spec's data model names
  scalar, list and derived kinds. \<open>baseGqlType\<close> stands for the result of its
  \<open>toString()\<close>.
\<close>

datatype FieldKind = SCALAR | LIST | DERIVED

record Field =
  field_name :: string
  field_kind :: FieldKind
  baseGqlType :: string
  migrateUpStatement :: string
  derivedFromEntityName :: string
  derivedFromFieldName :: string

record Entity =
  entity_id :: string
  entity_name :: string
  entity_fields :: "Field list"
  fieldByName :: "string \<Rightarrow> Field option"

record Schema =
  entities :: "Entity list"

section \<open>Store state and backend\<close>

text \<open>
  The store holds the current schema (\<open>schema?: Schema\<close>). The pool is the backend:
  \<open>pool.query(statement, values)\<close> is a transition of an abstract database state that
  answers with a row set or rejects.
\<close>

record PostgresEntityStore =
  schema :: "Schema option"

record QueryResult =
  rows :: "row list"
  rowCount :: nat

type_synonym 'db pool_query =
  "string \<Rightarrow> jsval list \<Rightarrow> 'db \<Rightarrow> (error + QueryResult) \<times> 'db"

section \<open>Text helpers\<close>

text \<open>\<open>`"${s}"`\<close>: a template literal that wraps a string in double quotes.\<close>

definition quoted :: "string \<Rightarrow> string" where
  "quoted s = [CHR 0x22] @ s @ [CHR 0x22]"

text \<open>\<open>Array.prototype.join\<close> on an array of strings.\<close>

fun join :: "string \<Rightarrow> string list \<Rightarrow> string" where
  "join sep [] = []"
| "join sep [x] = x"
| "join sep (x # y # ys) = x @ sep @ join sep (y # ys)"

text \<open>\<open>`${n}`\<close> for an integer \<open>n\<close>: its decimal numeral.\<close>

definition digit_char :: "nat \<Rightarrow> char" where
  "digit_char n = ''0123456789'' ! n"

fun show_nat :: "nat \<Rightarrow> string" where
  "show_nat n = (if n < 10 then [digit_char n] else show_nat (n div 10) @ [digit_char (n mod 10)])"

declare show_nat.simps [simp del]

definition show_int :: "int \<Rightarrow> string" where
  "show_int i = (if i < 0 then CHR ''-'' # show_nat (nat (- i)) else show_nat (nat i))"

text \<open>A \<open>map\<close> whose callback may throw: the first throw, in order, aborts it.\<close>

fun mapE :: "('a \<Rightarrow> error + 'b) \<Rightarrow> 'a list \<Rightarrow> error + 'b list" where
  "mapE f [] = Inr []"
| "mapE f (x # xs) =
     (case f x of
        Inl e \<Rightarrow> Inl e
      | Inr y \<Rightarrow> (case mapE f xs of Inl e \<Rightarrow> Inl e | Inr ys \<Rightarrow> Inr (y # ys)))"

section \<open>The store (postgresEntityStore.ts)\<close>

subsection \<open>errorWrapper\<close>

definition errorWrapper ::
  "PostgresEntityStore \<Rightarrow> ('db \<Rightarrow> (error + 'a) \<times> 'db) \<Rightarrow> 'db \<Rightarrow> (error + 'a) \<times> 'db" where
  "errorWrapper st fn db =
     (case schema st of
        None \<Rightarrow> (Inl Uninitialized, db)
      | Some _ \<Rightarrow> fn db)"

subsection \<open>deserialize\<close>

text \<open>
  The body of the \<open>forEach\<close> callback: \<open>acc\<close> is \<open>deserializedInstance\<close>, assigned by
  key. \<open>JSON.parse\<close> is the runtime's and is a parameter.
\<close>

definition deserialize_property ::
  "(jsval \<Rightarrow> error + jsval) \<Rightarrow> Entity \<Rightarrow> row \<Rightarrow> string \<times> jsval \<Rightarrow> error + row" where
  "deserialize_property json_parse entity acc p =
     (case p of (fieldName, v) \<Rightarrow>
        (case fieldByName entity fieldName of
           None \<Rightarrow> Inr acc
         | Some fld \<Rightarrow>
             if baseGqlType fld = ''Boolean''
             then Inr (AList.update fieldName (JBool (v = JNum 1)) acc)
             else if field_kind fld = LIST
             then (case json_parse v of
                     Inl e \<Rightarrow> Inl e
                   | Inr parsed \<Rightarrow> Inr (AList.update fieldName parsed acc))
             else Inr (AList.update fieldName v acc)))"

fun deserialize_loop ::
  "(jsval \<Rightarrow> error + jsval) \<Rightarrow> Entity \<Rightarrow> row \<Rightarrow> (string \<times> jsval) list \<Rightarrow> error + row" where
  "deserialize_loop json_parse entity acc [] = Inr acc"
| "deserialize_loop json_parse entity acc (p # ps) =
     (case deserialize_property json_parse entity acc p of
        Inl e \<Rightarrow> Inl e
      | Inr acc' \<Rightarrow> deserialize_loop json_parse entity acc' ps)"

text \<open>
  The argument is \<open>rows[0]\<close>, which is \<open>undefined\<close> (\<open>None\<close>) when the backend returned
  no row: the spread \<open>{ ...undefined }\<close> is the empty object, and
  \<open>Object.entries(undefined)\<close> throws a TypeError.
\<close>

definition deserialize ::
  "(jsval \<Rightarrow> error + jsval) \<Rightarrow> PostgresEntityStore \<Rightarrow> string \<Rightarrow> row option \<Rightarrow> error + row" where
  "deserialize json_parse st entityId inst =
     (case schema st of
        None \<Rightarrow> Inl Uninitialized
      | Some sch \<Rightarrow>
          (case find (\<lambda>e. entity_id e = entityId) (entities sch) of
             None \<Rightarrow> Inl (EntityNotFoundForId entityId)
           | Some entity \<Rightarrow>
               (case inst of
                  None \<Rightarrow> Inl TypeError
                | Some r \<Rightarrow> deserialize_loop json_parse entity r r)))"

text \<open>\<open>rows[0]\<close>\<close>

definition first_row :: "row list \<Rightarrow> row option" where
  "first_row rs = (case rs of [] \<Rightarrow> None | r # _ \<Rightarrow> Some r)"

subsection \<open>getEntity, insertEntity, updateEntity, upsertEntity, deleteEntity\<close>

text \<open>
  \<open>getColumnValuePairs\<close> is imported from \<open>./utils\<close>, which is not among the sources:
  it is a parameter, from an object to its (column, value) pairs.
\<close>

definition getEntity ::
  "(jsval \<Rightarrow> error + jsval) \<Rightarrow> 'db pool_query \<Rightarrow> PostgresEntityStore \<Rightarrow>
   string \<Rightarrow> string \<Rightarrow> 'db \<Rightarrow> (error + row option) \<times> 'db" where
  "getEntity json_parse pq st entityId ident =
     errorWrapper st (\<lambda>db.
       let statement = ''SELECT '' @ quoted entityId @ ''.* FROM '' @ quoted entityId
             @ '' WHERE '' @ quoted entityId @ ''.'' @ quoted ''id'' @ '' = $1''
       in (case pq statement [JStr ident] db of
             (Inl e, db') \<Rightarrow> (Inl e, db')
           | (Inr res, db') \<Rightarrow>
               if rowCount res = 0 then (Inr None, db')
               else (case deserialize json_parse st entityId (first_row (rows res)) of
                       Inl e \<Rightarrow> (Inl e, db')
                     | Inr r \<Rightarrow> (Inr (Some r), db'))))"

text \<open>
  \<open>instance.id = id\<close>: an assignment to a property keeps its place among the keys when
  the object has it, and adds it last otherwise. The object assigned to is the caller's;
  the operations below carry on with the assigned instance.
\<close>

definition assign_id :: "string \<Rightarrow> row \<Rightarrow> row" where
  "assign_id ident inst = AList.update ''id'' (JStr ident) inst"

text \<open>\<open>`(${columns.join(", ")}) VALUES (${values.map((_, idx) => `$${idx + 1}`).join(", ")})`\<close>\<close>

definition insertFragment :: "(string \<times> jsval) list \<Rightarrow> string" where
  "insertFragment pairs =
     ''('' @ join '', '' (map fst pairs) @ '') VALUES (''
       @ join '', '' (map (\<lambda>idx. ''$'' @ show_nat (idx + 1)) [0..<length pairs]) @ '')''"

definition insertStatement :: "string \<Rightarrow> (string \<times> jsval) list \<Rightarrow> string" where
  "insertStatement entityId pairs =
     ''INSERT INTO '' @ quoted entityId @ '' '' @ insertFragment pairs @ '' RETURNING *''"

definition insertEntity ::
  "(row \<Rightarrow> (string \<times> jsval) list) \<Rightarrow> (jsval \<Rightarrow> error + jsval) \<Rightarrow> 'db pool_query \<Rightarrow>
   PostgresEntityStore \<Rightarrow> string \<Rightarrow> string \<Rightarrow> row \<Rightarrow> 'db \<Rightarrow> (error + row) \<times> 'db" where
  "insertEntity getColumnValuePairs json_parse pq st entityId ident inst =
     errorWrapper st (\<lambda>db.
       let inst' = assign_id ident inst;
           pairs = getColumnValuePairs inst';
           insertValues = map snd pairs
       in (case pq (insertStatement entityId pairs) insertValues db of
             (Inl e, db') \<Rightarrow> (Inl e, db')
           | (Inr res, db') \<Rightarrow>
               (deserialize json_parse st entityId (first_row (rows res)), db')))"

text \<open>\<open>pairs.map(({ column }, idx) => `${column} = $${idx + 1 + offset}`).join(", ")\<close>\<close>

definition updateFragment :: "nat \<Rightarrow> (string \<times> jsval) list \<Rightarrow> string" where
  "updateFragment offset updatePairs =
     join '', ''
       (map (\<lambda>(idx, column). column @ '' = $'' @ show_nat (idx + 1 + offset))
            (zip [0..<length updatePairs] (map fst updatePairs)))"

definition updateStatement :: "string \<Rightarrow> (string \<times> jsval) list \<Rightarrow> string" where
  "updateStatement entityId updatePairs =
     ''UPDATE '' @ quoted entityId @ '' SET '' @ updateFragment 0 updatePairs
       @ '' WHERE '' @ quoted ''id'' @ '' = $'' @ show_nat (length updatePairs + 1)
       @ '' RETURNING *''"

definition updateEntity ::
  "(row \<Rightarrow> (string \<times> jsval) list) \<Rightarrow> (jsval \<Rightarrow> error + jsval) \<Rightarrow> 'db pool_query \<Rightarrow>
   PostgresEntityStore \<Rightarrow> string \<Rightarrow> string \<Rightarrow> row \<Rightarrow> 'db \<Rightarrow> (error + row) \<times> 'db" where
  "updateEntity getColumnValuePairs json_parse pq st entityId ident inst =
     errorWrapper st (\<lambda>db.
       let pairs = getColumnValuePairs inst;
           updatePairs = filter (\<lambda>(column, _). column \<noteq> ''id'') pairs;
           updateValues = map snd updatePairs
       in (case pq (updateStatement entityId updatePairs) (updateValues @ [JStr ident]) db of
             (Inl e, db') \<Rightarrow> (Inl e, db')
           | (Inr res, db') \<Rightarrow>
               (deserialize json_parse st entityId (first_row (rows res)), db')))"

definition upsertStatement ::
  "string \<Rightarrow> (string \<times> jsval) list \<Rightarrow> (string \<times> jsval) list \<Rightarrow> string" where
  "upsertStatement entityId pairs updatePairs =
     ''INSERT INTO '' @ quoted entityId @ '' '' @ insertFragment pairs
       @ '' ON CONFLICT('' @ quoted ''id'' @ '') DO UPDATE SET ''
       @ updateFragment (length pairs) updatePairs @ '' RETURNING *''"

definition upsertEntity ::
  "(row \<Rightarrow> (string \<times> jsval) list) \<Rightarrow> (jsval \<Rightarrow> error + jsval) \<Rightarrow> 'db pool_query \<Rightarrow>
   PostgresEntityStore \<Rightarrow> string \<Rightarrow> string \<Rightarrow> row \<Rightarrow> 'db \<Rightarrow> (error + row) \<times> 'db" where
  "upsertEntity getColumnValuePairs json_parse pq st entityId ident inst =
     errorWrapper st (\<lambda>db.
       let inst' = assign_id ident inst;
           pairs = getColumnValuePairs inst';
           insertValues = map snd pairs;
           updatePairs = filter (\<lambda>(column, _). column \<noteq> ''id'') pairs;
           updateValues = map snd updatePairs
       in (case pq (upsertStatement entityId pairs updatePairs) (insertValues @ updateValues) db of
             (Inl e, db') \<Rightarrow> (Inl e, db')
           | (Inr res, db') \<Rightarrow>
               (deserialize json_parse st entityId (first_row (rows res)), db')))"

definition deleteEntity ::
  "'db pool_query \<Rightarrow> PostgresEntityStore \<Rightarrow> string \<Rightarrow> string \<Rightarrow> 'db \<Rightarrow> (error + bool) \<times> 'db" where
  "deleteEntity pq st entityId ident =
     errorWrapper st (\<lambda>db.
       let statement = ''DELETE FROM '' @ quoted entityId @ '' WHERE '' @ quoted ''id'' @ '' = $1''
       in (case pq statement [JStr ident] db of
             (Inl e, db') \<Rightarrow> (Inl e, db')
           | (Inr res, db') \<Rightarrow> (Inr (rowCount res = 1), db')))"

subsection \<open>getEntities\<close>

text \<open>
  The filter of a list call. An absent property is \<open>None\<close>; the conditions
  \<open>if (first)\<close>, \<open>if (orderBy)\<close> test truthiness: a number other than 0, a string other
  than the empty one, any object.
\<close>

record EntityFilter =
  filter_where :: "row option"
  filter_first :: "int option"
  filter_skip :: "int option"
  filter_orderBy :: "string option"
  filter_orderDirection :: "string option"

text \<open>The filter \<open>{ where: w }\<close>, with no other property.\<close>

definition whereOnly :: "row \<Rightarrow> EntityFilter" where
  "whereOnly w =
     \<lparr>filter_where = Some w, filter_first = None, filter_skip = None,
      filter_orderBy = None, filter_orderDirection = None\<rparr>"

definition truthy_num :: "int option \<Rightarrow> bool" where
  "truthy_num n = (case n of None \<Rightarrow> False | Some i \<Rightarrow> i \<noteq> 0)"

definition truthy_str :: "string option \<Rightarrow> bool" where
  "truthy_str s = (case s of None \<Rightarrow> False | Some t \<Rightarrow> t \<noteq> [])"

text \<open>
  \<open>field.split(/_(.*)/s)\<close>, first two elements: the text before the first underscore, and
  the whole text after it (\<open>undefined\<close>, here \<open>None\<close>, when the key has no underscore).
\<close>

definition splitKey :: "string \<Rightarrow> string \<times> string option" where
  "splitKey k =
     (takeWhile (\<lambda>c. c \<noteq> CHR ''_'') k,
      (case dropWhile (\<lambda>c. c \<noteq> CHR ''_'') k of [] \<Rightarrow> None | _ # rest \<Rightarrow> Some rest))"

text \<open>
  \<open>const filterType = rawFilterType === undefined ? "" : rawFilterType\<close>, as a function
  of the key.
\<close>

definition keyFieldName :: "string \<Rightarrow> string" where
  "keyFieldName k = fst (splitKey k)"

definition keyFilterType :: "string \<Rightarrow> string" where
  "keyFilterType k = (case snd (splitKey k) of None \<Rightarrow> [] | Some t \<Rightarrow> t)"

text \<open>
  The callback of \<open>Object.entries(where).map\<close>. \<open>sqlSymbolsForFilterType\<close> and
  \<open>getWhereValue\<close> are imported from \<open>./utils\<close>, which is not among the sources: both
  are parameters, the table as its property lookup (\<open>None\<close> when the lookup gives
  \<open>undefined\<close>).
\<close>

definition whereFragment ::
  "(string \<Rightarrow> 's option) \<Rightarrow> (jsval \<Rightarrow> 's \<Rightarrow> string) \<Rightarrow> string \<times> jsval \<Rightarrow> error + string" where
  "whereFragment sqlSymbolsForFilterType getWhereValue p =
     (case p of (field, v) \<Rightarrow>
        (case splitKey field of (fieldName, rawFilterType) \<Rightarrow>
           (let filterType = (case rawFilterType of None \<Rightarrow> [] | Some t \<Rightarrow> t)
            in (case sqlSymbolsForFilterType filterType of
                  None \<Rightarrow> Inl (SqlOperatorsNotFound filterType)
                | Some sqlSymbols \<Rightarrow>
                    Inr (quoted fieldName @ '' '' @ getWhereValue v sqlSymbols)))))"

text \<open>The \<open>fragments\<close> pushed after the WHERE fragment, in the order of the pushes.\<close>

definition pageFragments :: "EntityFilter option \<Rightarrow> string list" where
  "pageFragments flt =
     (let first = (case flt of None \<Rightarrow> None | Some f \<Rightarrow> filter_first f);
          skip = (case flt of None \<Rightarrow> None | Some f \<Rightarrow> filter_skip f);
          orderBy = (case flt of None \<Rightarrow> None | Some f \<Rightarrow> filter_orderBy f);
          orderDirection = (case flt of None \<Rightarrow> None | Some f \<Rightarrow> filter_orderDirection f)
      in (if truthy_str orderBy then [''ORDER BY '' @ quoted (the orderBy)] else [])
       @ (if truthy_str orderDirection then [the orderDirection] else [])
       @ (if truthy_num first then [''LIMIT '' @ show_int (the first)] else [])
       @ (if truthy_num skip
          then (if \<not> truthy_num first then [''LIMIT -1''] else [])
               @ [''OFFSET '' @ show_int (the skip)]
          else []))"

definition getEntitiesStatement ::
  "(string \<Rightarrow> 's option) \<Rightarrow> (jsval \<Rightarrow> 's \<Rightarrow> string) \<Rightarrow> string \<Rightarrow> EntityFilter option \<Rightarrow>
   error + string" where
  "getEntitiesStatement sqlSymbolsForFilterType getWhereValue entityId flt =
     (let wh = (case flt of None \<Rightarrow> None | Some f \<Rightarrow> filter_where f)
      in (case (case wh of
                  None \<Rightarrow> Inr []
                | Some w \<Rightarrow>
                    (case mapE (whereFragment sqlSymbolsForFilterType getWhereValue) w of
                       Inl e \<Rightarrow> Inl e
                     | Inr whereFragments \<Rightarrow> Inr [''WHERE '' @ join '' AND '' whereFragments])) of
            Inl e \<Rightarrow> Inl e
          | Inr fragments \<Rightarrow>
              Inr (''SELECT * FROM '' @ quoted entityId @ '' ''
                     @ join '' '' (fragments @ pageFragments flt))))"

text \<open>\<open>pool.query(statement)\<close>: the call passes no list of values.\<close>

definition getEntities ::
  "(string \<Rightarrow> 's option) \<Rightarrow> (jsval \<Rightarrow> 's \<Rightarrow> string) \<Rightarrow> (jsval \<Rightarrow> error + jsval) \<Rightarrow>
   'db pool_query \<Rightarrow> PostgresEntityStore \<Rightarrow> string \<Rightarrow> EntityFilter option \<Rightarrow> 'db \<Rightarrow>
   (error + row list) \<times> 'db" where
  "getEntities sqlSymbolsForFilterType getWhereValue json_parse pq st entityId flt =
     errorWrapper st (\<lambda>db.
       (case getEntitiesStatement sqlSymbolsForFilterType getWhereValue entityId flt of
          Inl e \<Rightarrow> (Inl e, db)
        | Inr statement \<Rightarrow>
            (case pq statement [] db of
               (Inl e, db') \<Rightarrow> (Inl e, db')
             | (Inr res, db') \<Rightarrow>
                 (mapE (\<lambda>r. deserialize json_parse st entityId (Some r)) (rows res), db'))))"

subsection \<open>getEntityDerivedField\<close>

definition getEntityDerivedField ::
  "(string \<Rightarrow> 's option) \<Rightarrow> (jsval \<Rightarrow> 's \<Rightarrow> string) \<Rightarrow> (jsval \<Rightarrow> error + jsval) \<Rightarrow>
   'db pool_query \<Rightarrow> PostgresEntityStore \<Rightarrow> string \<Rightarrow> string \<Rightarrow> string \<Rightarrow> 'db \<Rightarrow>
   (error + row list) \<times> 'db" where
  "getEntityDerivedField sqlSymbolsForFilterType getWhereValue json_parse pq st
       entityId instanceId derivedFieldName =
     errorWrapper st (\<lambda>db.
       (case (case schema st of
                None \<Rightarrow> None
              | Some sch \<Rightarrow> find (\<lambda>e. entity_id e = entityId) (entities sch)) of
          None \<Rightarrow> (Inl (EntityNotFoundForId entityId), db)
        | Some entity \<Rightarrow>
            (case find (\<lambda>fld. field_kind fld = DERIVED \<and> field_name fld = derivedFieldName)
                       (entity_fields entity) of
               None \<Rightarrow> (Inl (DerivedFieldNotFound (entity_name entity) derivedFieldName), db)
             | Some derivedField \<Rightarrow>
                 (case (case schema st of
                          None \<Rightarrow> None
                        | Some sch \<Rightarrow>
                            find (\<lambda>e. entity_name e = derivedFromEntityName derivedField)
                                 (entities sch)) of
                    None \<Rightarrow>
                      (Inl (EntityNotFoundForName (derivedFromEntityName derivedField)), db)
                  | Some derivedFromEntity \<Rightarrow>
                      getEntities sqlSymbolsForFilterType getWhereValue json_parse pq st
                        (entity_id derivedFromEntity)
                        (Some (whereOnly
                                 [(derivedFromFieldName derivedField, JStr instanceId)]))
                        db))))"

subsection \<open>teardown and load\<close>

text \<open>
  \<open>Promise.all(entities.map(async ...))\<close>: every callback issues its query, in the order
  of the entities, before any answer arrives; the call fails when one of them is rejected
  (here: the first rejected one in that order).
\<close>

fun query_all :: "'db pool_query \<Rightarrow> string list \<Rightarrow> 'db \<Rightarrow> (error + unit) \<times> 'db" where
  "query_all pq [] db = (Inr (), db)"
| "query_all pq (s # ss) db =
     (case pq s [] db of
        (r, db') \<Rightarrow>
          (case query_all pq ss db' of
             (r', db'') \<Rightarrow> ((case r of Inl e \<Rightarrow> Inl e | Inr _ \<Rightarrow> r'), db'')))"

definition teardown ::
  "'db pool_query \<Rightarrow> PostgresEntityStore \<Rightarrow> 'db \<Rightarrow> (error + unit) \<times> 'db" where
  "teardown pq st db =
     (case schema st of
        None \<Rightarrow> (Inr (), db)
      | Some sch \<Rightarrow>
          query_all pq
            (map (\<lambda>entity. ''DROP TABLE IF EXISTS '' @ quoted (entity_id entity)) (entities sch))
            db)"

definition createTableStatement :: "Entity \<Rightarrow> string" where
  "createTableStatement entity =
     (let columnStatements =
            map migrateUpStatement
              (filter (\<lambda>fld. field_kind fld \<noteq> DERIVED) (entity_fields entity))
      in ''CREATE TABLE '' @ quoted (entity_id entity) @ '' ('' @ join '', '' columnStatements
           @ '')'')"

definition load ::
  "'db pool_query \<Rightarrow> Schema option \<Rightarrow> PostgresEntityStore \<Rightarrow> 'db \<Rightarrow>
   (error + unit) \<times> PostgresEntityStore \<times> 'db" where
  "load pq newSchema st db =
     (case (if schema st \<noteq> None then teardown pq st db else (Inr (), db)) of
        (Inl e, db1) \<Rightarrow> (Inl e, st, db1)
      | (Inr _, db1) \<Rightarrow>
          (let st' = (case newSchema of None \<Rightarrow> st | Some s \<Rightarrow> st\<lparr>schema := Some s\<rparr>)
           in (case schema st' of
                 None \<Rightarrow> (Inr (), st', db1)
               | Some sch \<Rightarrow>
                   (case query_all pq (map createTableStatement (entities sch)) db1 of
                      (r, db2) \<Rightarrow> (r, st', db2)))))"

section \<open>The plural field (buildPluralField, buildWhereObject)\<close>

subsection \<open>The filter fields declared for an entity\<close>

text \<open>
  The scalar types are the keys of \<open>scalarToTsType\<close>. A column has a type and the flags
  \<open>optional\<close> and \<open>list\<close> (an absent flag is \<open>False\<close>). \<open>tsTypeToGqlScalar\<close> is
  declared in \<open>./schema\<close>, which is not among the sources: the GraphQL type of a filter
  field is represented by the scalar it is made from, alone or in a \<open>GraphQLList\<close>.
\<close>

datatype Scalar = Sc_string | Sc_int | Sc_float | Sc_boolean | Sc_bigint | Sc_bytes

record Column =
  column_type :: Scalar
  column_optional :: bool
  column_list :: bool

datatype GqlInputType = GqlScalar Scalar | GqlList Scalar

definition tsTypeToGqlField :: "string \<Rightarrow> string" where
  "tsTypeToGqlField key = (if key = ''bigint'' then ''bigInt'' else key)"

definition operators_universal :: "string list" where
  "operators_universal = [Nil, ''_not'']"

definition operators_singular :: "string list" where
  "operators_singular = [''_in'', ''_not_in'']"

definition operators_plural :: "string list" where
  "operators_plural = [''_has'', ''_not_has'']"

definition operators_numeric :: "string list" where
  "operators_numeric = [''_gt'', ''_lt'', ''_gte'', ''_lte'']"

definition operators_string :: "string list" where
  "operators_string =
     [''_contains'', ''_not_contains'', ''_starts_with'', ''_ends_with'',
      ''_not_starts_with'', ''_not_ends_with'']"

text \<open>
  \<open>suffixes.forEach((suffix) => { filterFields[`${base}${suffix}`] = { type }; })\<close>
\<close>

definition declareSuffixes ::
  "string \<Rightarrow> GqlInputType \<Rightarrow> string list \<Rightarrow> (string \<times> GqlInputType) list \<Rightarrow>
   (string \<times> GqlInputType) list" where
  "declareSuffixes base ty suffixes acc =
     fold (\<lambda>suffix a. AList.update (base @ suffix) ty a) suffixes acc"

text \<open>The callback of \<open>Object.keys(entity.columns).forEach\<close>; \<open>acc\<close> is \<open>filterFields\<close>.\<close>

definition filterFields_column ::
  "string \<times> Column \<Rightarrow> (string \<times> GqlInputType) list \<Rightarrow> (string \<times> GqlInputType) list" where
  "filterFields_column p acc =
     (case p of (key, col) \<Rightarrow>
        (let ty = column_type col
         in if \<not> column_list col
            then (let a1 = declareSuffixes (tsTypeToGqlField key) (GqlScalar ty)
                             operators_universal acc;
                      a2 = declareSuffixes (tsTypeToGqlField key) (GqlList ty)
                             operators_singular a1;
                      a3 = (if ty \<in> {Sc_int, Sc_bigint, Sc_float}
                            then declareSuffixes (tsTypeToGqlField key) (GqlScalar ty)
                                   operators_numeric a2
                            else a2)
                  in if ty \<in> {Sc_string, Sc_bytes}
                     then declareSuffixes key (GqlScalar ty) operators_string a3
                     else a3)
            else (let a1 = declareSuffixes (tsTypeToGqlField key) (GqlList ty)
                             operators_universal acc
                  in declareSuffixes (tsTypeToGqlField key) (GqlScalar ty)
                       operators_plural a1)))"

definition filterFields :: "(string \<times> Column) list \<Rightarrow> (string \<times> GqlInputType) list" where
  "filterFields columns = fold filterFields_column columns []"

subsection \<open>buildWhereObject\<close>

text \<open>
  \<open>graphqlFilterToStoreCondition[condition]\<close> is a property lookup on an object literal:
  it finds the sixteen own properties, and also the members that every plain object
  inherits from \<open>Object.prototype\<close>, all of which are truthy (functions, and the prototype
  itself for \<open>__proto__\<close>).
\<close>

datatype StoreCondition = OwnCondition string | InheritedMember string

definition graphqlFilterToStoreCondition_own :: "(string \<times> string) list" where
  "graphqlFilterToStoreCondition_own =
       [([], ''equals''),
        (''not'', ''not''),
        (''in'', ''in''),
        (''not_in'', ''notIn''),
        (''has'', ''has''),
        (''not_has'', ''notHas''),
        (''gt'', ''gt''),
        (''lt'', ''lt''),
        (''gte'', ''gte''),
        (''lte'', ''lte''),
        (''contains'', ''contains''),
        (''not_contains'', ''notContains''),
        (''starts_with'', ''startsWith''),
        (''not_starts_with'', ''notStartsWith''),
        (''ends_with'', ''endsWith''),
        (''not_ends_with'', ''notEndsWith'')]"

definition objectPrototypeMembers :: "string list" where
  "objectPrototypeMembers =
     [''constructor'', ''hasOwnProperty'', ''isPrototypeOf'', ''propertyIsEnumerable'',
      ''toLocaleString'', ''toString'', ''valueOf'',
      ''__defineGetter__'', ''__defineSetter__'', ''__lookupGetter__'', ''__lookupSetter__'',
      ''__proto__'']"

definition graphqlFilterToStoreCondition :: "string \<Rightarrow> StoreCondition option" where
  "graphqlFilterToStoreCondition condition =
     (case map_of graphqlFilterToStoreCondition_own condition of
        Some storeCondition \<Rightarrow> Some (OwnCondition storeCondition)
      | None \<Rightarrow>
          if condition \<in> set objectPrototypeMembers then Some (InheritedMember condition)
          else None)"

text \<open>
  The callback of \<open>Object.entries(where).forEach\<close>: \<open>acc\<close> is \<open>whereObject\<close>, whose
  value for a field is the one-property object \<open>{ [storeCondition]: rawValue }\<close> (for an
  inherited member the property name is the text of that member).
\<close>

definition buildWhereObject_entry ::
  "(string \<times> StoreCondition \<times> jsval) list \<Rightarrow> string \<times> jsval \<Rightarrow>
   error + (string \<times> StoreCondition \<times> jsval) list" where
  "buildWhereObject_entry acc p =
     (case p of (whereKey, rawValue) \<Rightarrow>
        (case splitKey whereKey of (fieldName, condition_) \<Rightarrow>
           (let condition = (case condition_ of None \<Rightarrow> [] | Some c \<Rightarrow> c)
            in (case graphqlFilterToStoreCondition condition of
                  None \<Rightarrow> Inl (UnknownWhereCondition fieldName condition)
                | Some storeCondition \<Rightarrow>
                    Inr (AList.update fieldName (storeCondition, rawValue) acc)))))"

fun buildWhereObject_loop ::
  "(string \<times> StoreCondition \<times> jsval) list \<Rightarrow> row \<Rightarrow>
   error + (string \<times> StoreCondition \<times> jsval) list" where
  "buildWhereObject_loop acc [] = Inr acc"
| "buildWhereObject_loop acc (p # ps) =
     (case buildWhereObject_entry acc p of
        Inl e \<Rightarrow> Inl e
      | Inr acc' \<Rightarrow> buildWhereObject_loop acc' ps)"

definition buildWhereObject :: "row \<Rightarrow> error + (string \<times> StoreCondition \<times> jsval) list" where
  "buildWhereObject wh = buildWhereObject_loop [] wh"

section \<open>deserialize on shared objects\<close>

text \<open>
  \<open>deserialize\<close> receives a reference to an object that its caller also holds. To state
  what the call does to that object, objects live in a store of cells: a reference is the
  number of a cell, and \<open>next_ref\<close> is the first cell not yet in use.
\<close>

record objects =
  cells :: "nat \<Rightarrow> row option"
  next_ref :: nat

definition object_at :: "objects \<Rightarrow> nat \<Rightarrow> row" where
  "object_at h a = (case cells h a of None \<Rightarrow> [] | Some r \<Rightarrow> r)"

text \<open>\<open>{ ...instance }\<close>: a new object with the own properties of the given one.\<close>

definition alloc :: "row \<Rightarrow> objects \<Rightarrow> nat \<times> objects" where
  "alloc r h = (next_ref h, h\<lparr>cells := (cells h)(next_ref h \<mapsto> r), next_ref := Suc (next_ref h)\<rparr>)"

text \<open>\<open>obj[k] = v\<close>\<close>

definition assign_property :: "nat \<Rightarrow> string \<Rightarrow> jsval \<Rightarrow> objects \<Rightarrow> objects" where
  "assign_property a k v h = h\<lparr>cells := (cells h)(a \<mapsto> AList.update k v (object_at h a))\<rparr>"

text \<open>
  The \<open>forEach\<close> callback, with \<open>deserializedInstance\<close> the object at \<open>b\<close>: its three
  assignments go to \<open>b\<close>.
\<close>

definition deserialize_obj_property ::
  "(jsval \<Rightarrow> error + jsval) \<Rightarrow> Entity \<Rightarrow> nat \<Rightarrow> string \<times> jsval \<Rightarrow> objects \<Rightarrow>
   (error + unit) \<times> objects" where
  "deserialize_obj_property json_parse entity b p h =
     (case p of (fieldName, v) \<Rightarrow>
        (case fieldByName entity fieldName of
           None \<Rightarrow> (Inr (), h)
         | Some fld \<Rightarrow>
             if baseGqlType fld = ''Boolean''
             then (Inr (), assign_property b fieldName (JBool (v = JNum 1)) h)
             else if field_kind fld = LIST
             then (case json_parse v of
                     Inl e \<Rightarrow> (Inl e, h)
                   | Inr parsed \<Rightarrow> (Inr (), assign_property b fieldName parsed h))
             else (Inr (), assign_property b fieldName v h)))"

fun deserialize_obj_loop ::
  "(jsval \<Rightarrow> error + jsval) \<Rightarrow> Entity \<Rightarrow> nat \<Rightarrow> (string \<times> jsval) list \<Rightarrow> objects \<Rightarrow>
   (error + unit) \<times> objects" where
  "deserialize_obj_loop json_parse entity b [] h = (Inr (), h)"
| "deserialize_obj_loop json_parse entity b (p # ps) h =
     (case deserialize_obj_property json_parse entity b p h of
        (Inl e, h') \<Rightarrow> (Inl e, h')
      | (Inr _, h') \<Rightarrow> deserialize_obj_loop json_parse entity b ps h')"

text \<open>
  The argument is a reference, or \<open>undefined\<close> (\<open>None\<close>). \<open>Object.entries(instance)\<close> is
  taken once, before the loop runs.
\<close>

definition deserialize_obj ::
  "(jsval \<Rightarrow> error + jsval) \<Rightarrow> PostgresEntityStore \<Rightarrow> string \<Rightarrow> nat option \<Rightarrow> objects \<Rightarrow>
   (error + nat) \<times> objects" where
  "deserialize_obj json_parse st entityId inst h =
     (case schema st of
        None \<Rightarrow> (Inl Uninitialized, h)
      | Some sch \<Rightarrow>
          (case find (\<lambda>e. entity_id e = entityId) (entities sch) of
             None \<Rightarrow> (Inl (EntityNotFoundForId entityId), h)
           | Some entity \<Rightarrow>
               (case alloc (case inst of None \<Rightarrow> [] | Some a \<Rightarrow> object_at h a) h of
                  (b, h1) \<Rightarrow>
                    (case inst of
                       None \<Rightarrow> (Inl TypeError, h1)
                     | Some a \<Rightarrow>
                         (case deserialize_obj_loop json_parse entity b (object_at h1 a) h1 of
                            (Inl e, h2) \<Rightarrow> (Inl e, h2)
                          | (Inr _, h2) \<Rightarrow> (Inr b, h2))))))"

section \<open>Auxiliary notions for the statements\<close>

text \<open>
  What the \<open>forEach\<close> callback of \<open>deserialize\<close> assigns for one property, read off
  its three branches; \<open>deserialize_property_decoded\<close> below relates it to the callback.
\<close>

definition decoded ::
  "(jsval \<Rightarrow> error + jsval) \<Rightarrow> Entity \<Rightarrow> string \<times> jsval \<Rightarrow> error + jsval" where
  "decoded json_parse entity p =
     (case p of (k, v) \<Rightarrow>
        (case fieldByName entity k of
           None \<Rightarrow> Inr v
         | Some fld \<Rightarrow>
             if baseGqlType fld = ''Boolean'' then Inr (JBool (v = JNum 1))
             else if field_kind fld = LIST then json_parse v
             else Inr v))"

text \<open>
  Modelled from the spec: \<open>sqlSymbolsForFilterType\<close> is declared in \<open>./utils\<close>, which is
  not among the sources. Its keys are the operator suffixes of the taxonomy in section 4.3
  of the spec (universal, singular, plural, numeric, string), without the delimiting
  underscore; the spec does not give the symbols, and each suffix is mapped to itself.
\<close>

definition sqlSymbolsForFilterType_spec :: "string \<Rightarrow> string option" where
  "sqlSymbolsForFilterType_spec =
     map_of
       (map (\<lambda>t. (t, t))
          [Nil, ''not'',
           ''in'', ''not_in'',
           ''has'', ''not_has'',
           ''gt'', ''lt'', ''gte'', ''lte'',
           ''contains'', ''not_contains'', ''starts_with'', ''ends_with'',
           ''not_starts_with'', ''not_ends_with''])"



section \<open>Instances of the parameters, and an example schema\<close>

text \<open>
  The theorems below hold for every \<open>getWhereValue\<close>, \<open>JSON.parse\<close>,
  \<open>JSON.stringify\<close> and backend. The examples are evaluated at these instances.
\<close>

text \<open>A backend that records every call it receives and answers each with \<open>res\<close>.\<close>

definition answering :: "QueryResult \<Rightarrow> (string \<times> jsval list) list pool_query" where
  "answering res statement vals calls = (Inr res, calls @ [(statement, vals)])"

text \<open>A \<open>getWhereValue\<close> that renders the symbol and a marker for the value.\<close>

definition symbolOnly :: "jsval \<Rightarrow> string \<Rightarrow> string" where
  "symbolOnly v sqlSymbols = sqlSymbols @ '' ...''"

text \<open>A \<open>getColumnValuePairs\<close> that pairs each property name, quoted, with its value.\<close>

definition quotedColumns :: "row \<Rightarrow> (string \<times> jsval) list" where
  "quotedColumns r = map (\<lambda>(k, v). (quoted k, v)) r"

text \<open>A \<open>JSON.parse\<close> that knows the empty array only.\<close>

definition parseEmptyArray :: "jsval \<Rightarrow> error + jsval" where
  "parseEmptyArray v = (if v = JStr ''[]'' then Inr (JArr []) else Inl ParseError)"

definition scalarField :: "string \<Rightarrow> FieldKind \<Rightarrow> string \<Rightarrow> string \<Rightarrow> Field" where
  "scalarField n k t stmt =
     \<lparr>field_name = n, field_kind = k, baseGqlType = t, migrateUpStatement = stmt,
      derivedFromEntityName = [], derivedFromFieldName = []\<rparr>"

definition derivedField :: "string \<Rightarrow> string \<Rightarrow> string \<Rightarrow> string \<Rightarrow> Field" where
  "derivedField n t target via =
     \<lparr>field_name = n, field_kind = DERIVED, baseGqlType = t, migrateUpStatement = [],
      derivedFromEntityName = target, derivedFromFieldName = via\<rparr>"

definition petFields :: "Field list" where
  "petFields =
     [scalarField ''id'' SCALAR ''String'' (quoted ''id'' @ '' text not null primary key''),
      scalarField ''ownerId'' SCALAR ''String'' (quoted ''ownerId'' @ '' text not null''),
      scalarField ''vaccinated'' SCALAR ''Boolean'' (quoted ''vaccinated'' @ '' integer''),
      scalarField ''tags'' LIST ''String'' (quoted ''tags'' @ '' text'')]"

definition petEntity :: Entity where
  "petEntity =
     \<lparr>entity_id = ''Pet'', entity_name = ''Pet'', entity_fields = petFields,
      fieldByName = map_of (map (\<lambda>f. (field_name f, f)) petFields)\<rparr>"

definition ownerFields :: "Field list" where
  "ownerFields =
     [scalarField ''id'' SCALAR ''String'' (quoted ''id'' @ '' text not null primary key''),
      derivedField ''pets'' ''Pet'' ''Pet'' ''ownerId'',
      derivedField ''ghosts'' ''Ghost'' ''Ghost'' ''ownerId'']"

definition ownerEntity :: Entity where
  "ownerEntity =
     \<lparr>entity_id = ''Owner'', entity_name = ''Owner'', entity_fields = ownerFields,
      fieldByName = map_of (map (\<lambda>f. (field_name f, f)) ownerFields)\<rparr>"

definition petSchema :: Schema where
  "petSchema = \<lparr>entities = [petEntity, ownerEntity]\<rparr>"

definition petStore :: PostgresEntityStore where
  "petStore = \<lparr>schema = Some petSchema\<rparr>"

definition emptyStore :: PostgresEntityStore where
  "emptyStore = \<lparr>schema = None\<rparr>"


text \<open>
  A schema whose field names contain underscores: a dog refers to its owner in
  \<open>owner_id\<close>, and a person has the dogs and, through a field named \<open>owner_in\<close>, the
  kennels.
\<close>

definition dogFields :: "Field list" where
  "dogFields =
     [scalarField ''id'' SCALAR ''String'' (quoted ''id'' @ '' text not null primary key''),
      scalarField ''owner_id'' SCALAR ''String'' (quoted ''owner_id'' @ '' text not null'')]"

definition dogEntity :: Entity where
  "dogEntity =
     \<lparr>entity_id = ''Dog'', entity_name = ''Dog'', entity_fields = dogFields,
      fieldByName = map_of (map (\<lambda>f. (field_name f, f)) dogFields)\<rparr>"

definition kennelFields :: "Field list" where
  "kennelFields =
     [scalarField ''id'' SCALAR ''String'' (quoted ''id'' @ '' text not null primary key''),
      scalarField ''owner_in'' SCALAR ''String'' (quoted ''owner_in'' @ '' text not null'')]"

definition kennelEntity :: Entity where
  "kennelEntity =
     \<lparr>entity_id = ''Kennel'', entity_name = ''Kennel'', entity_fields = kennelFields,
      fieldByName = map_of (map (\<lambda>f. (field_name f, f)) kennelFields)\<rparr>"

definition personFields :: "Field list" where
  "personFields =
     [scalarField ''id'' SCALAR ''String'' (quoted ''id'' @ '' text not null primary key''),
      derivedField ''dogs'' ''Dog'' ''Dog'' ''owner_id'',
      derivedField ''kennels'' ''Kennel'' ''Kennel'' ''owner_in'']"

definition personEntity :: Entity where
  "personEntity =
     \<lparr>entity_id = ''Person'', entity_name = ''Person'', entity_fields = personFields,
      fieldByName = map_of (map (\<lambda>f. (field_name f, f)) personFields)\<rparr>"

definition dogSchema :: Schema where
  "dogSchema = \<lparr>entities = [dogEntity, kennelEntity, personEntity]\<rparr>"

definition dogStore :: PostgresEntityStore where
  "dogStore = \<lparr>schema = Some dogSchema\<rparr>"

text \<open>The columns of the dog, as the plural field sees them.\<close>

definition dogColumns :: "(string \<times> Column) list" where
  "dogColumns =
     [(''id'', \<lparr>column_type = Sc_string, column_optional = False, column_list = False\<rparr>),
      (''owner_id'', \<lparr>column_type = Sc_string, column_optional = False, column_list = False\<rparr>)]"

text \<open>An object store that holds one row of the pet table, at reference 0.\<close>

definition exampleObjects :: objects where
  "exampleObjects =
     \<lparr>cells = Map.empty(0 \<mapsto> [(''id'', JStr ''p1''), (''vaccinated'', JNum 1),
                                (''tags'', JStr ''[]''), (''extra'', JNum 7)]),
      next_ref = 1\<rparr>"

section \<open>Basic facts\<close>

lemma find_pet [simp]:
  "find (\<lambda>e. entity_id e = ''Pet'') (entities petSchema) = Some petEntity"
  by (simp add: petSchema_def petEntity_def)

lemma find_owner [simp]:
  "find (\<lambda>e. entity_id e = ''Owner'') (entities petSchema) = Some ownerEntity"
  by (simp add: petSchema_def petEntity_def ownerEntity_def)

lemma schema_petStore [simp]: "schema petStore = Some petSchema"
  by (simp add: petStore_def)

lemma schema_emptyStore [simp]: "schema emptyStore = None"
  by (simp add: emptyStore_def)

lemma errorWrapper_None [simp]:
  "schema st = None \<Longrightarrow> errorWrapper st fn db = (Inl Uninitialized, db)"
  by (simp add: errorWrapper_def)

lemma errorWrapper_Some [simp]:
  "schema st = Some sch \<Longrightarrow> errorWrapper st fn db = fn db"
  by (simp add: errorWrapper_def)

section \<open>Decoding rows\<close>

lemma deserialize_property_decoded:
  "deserialize_property jp ent acc (k, v) =
     (case decoded jp ent (k, v) of
        Inl e \<Rightarrow> Inl e
      | Inr w \<Rightarrow> Inr (case fieldByName ent k of None \<Rightarrow> acc | Some f \<Rightarrow> AList.update k w acc))"
  by (simp add: deserialize_property_def decoded_def split: option.splits sum.splits)

text \<open>
  The loop invariant: the copy keeps the keys of the row in their order, and a property
  that the loop has visited holds its decoded value.
\<close>

lemma deserialize_loop_result:
  assumes "distinct (map fst ps)" and "fst ` set ps \<subseteq> fst ` set acc"
    and "\<forall>p\<in>set ps. \<exists>w. decoded jp ent p = Inr w"
  shows "\<exists>out. deserialize_loop jp ent acc ps = Inr out \<and> map fst out = map fst acc \<and>
           (\<forall>k. map_of out k =
              (case map_of ps k of
                 None \<Rightarrow> map_of acc k
               | Some v \<Rightarrow>
                   (case fieldByName ent k of
                      None \<Rightarrow> map_of acc k
                    | Some f \<Rightarrow> Some (projr (decoded jp ent (k, v))))))"
  using assms
proof (induction ps arbitrary: acc)
  case Nil
  then show ?case by simp
next
  case (Cons p ps)
  obtain k v where p: "p = (k, v)" by (cases p)
  from Cons.prems(3) p obtain w where w: "decoded jp ent (k, v) = Inr w" by auto
  define acc' where
    "acc' = (case fieldByName ent k of None \<Rightarrow> acc | Some f \<Rightarrow> AList.update k w acc)"
  have step: "deserialize_property jp ent acc p = Inr acc'"
    by (simp add: p deserialize_property_decoded w acc'_def)
  have kin: "k \<in> fst ` set acc" using Cons.prems(2) p by auto
  have keys: "map fst acc' = map fst acc"
    using kin by (auto simp: acc'_def update_keys split: option.splits)
  have sub: "fst ` set ps \<subseteq> fst ` set acc'"
  proof -
    have "fst ` set acc' = fst ` set acc" using keys by (metis list.set_map)
    then show ?thesis using Cons.prems(2) by auto
  qed
  from Cons.IH [of acc'] Cons.prems sub
  obtain out where out: "deserialize_loop jp ent acc' ps = Inr out" "map fst out = map fst acc'"
    and look: "\<And>k'. map_of out k' =
              (case map_of ps k' of
                 None \<Rightarrow> map_of acc' k'
               | Some v \<Rightarrow>
                   (case fieldByName ent k' of
                      None \<Rightarrow> map_of acc' k'
                    | Some f \<Rightarrow> Some (projr (decoded jp ent (k', v)))))"
    by auto
  have knot: "map_of ps k = None"
    using Cons.prems(1) p by (simp add: map_of_eq_None_iff)
  have acc'_look: "map_of acc' k' =
      (if k' = k then (case fieldByName ent k of None \<Rightarrow> map_of acc k | Some f \<Rightarrow> Some w)
       else map_of acc k')" for k'
    by (simp add: acc'_def update_conv' split: option.splits)
  have "map_of out k' =
              (case map_of (p # ps) k' of
                 None \<Rightarrow> map_of acc k'
               | Some v \<Rightarrow>
                   (case fieldByName ent k' of
                      None \<Rightarrow> map_of acc k'
                    | Some f \<Rightarrow> Some (projr (decoded jp ent (k', v)))))" for k'
  proof (cases "k' = k")
    case True
    then show ?thesis using look [of k] knot w by (simp add: p acc'_look split: option.splits)
  next
    case False
    then show ?thesis using look [of k'] by (simp add: p acc'_look split: option.splits)
  qed
  then show ?case using step out keys by simp
qed

lemma alist_eqI:
  assumes "map fst xs = map fst ys" and "distinct (map fst xs)"
    and "\<And>k. map_of xs k = map_of ys k"
  shows "xs = ys"
proof -
  have len: "length (map snd xs) = length (map fst xs)" "length (map snd ys) = length (map fst xs)"
    using assms(1) by (simp_all, metis length_map)
  have "zip (map fst xs) (map snd ys) = ys"
    unfolding assms(1) by (rule zip_map_fst_snd)
  moreover have "zip (map fst xs) (map snd xs) = xs"
    by (rule zip_map_fst_snd)
  ultimately have "map_of (zip (map fst xs) (map snd xs)) = map_of (zip (map fst xs) (map snd ys))"
    using assms(3) by (simp only: fun_eq_iff) simp
  from map_of_zip_inject [OF len assms(2) this] have "map snd xs = map snd ys" .
  then show ?thesis using assms(1) by (metis zip_map_fst_snd)
qed

text \<open>The values that \<open>deserialize\<close> returns for a row, as a map over its entries.\<close>

lemma deserialize_value:
  assumes "schema st = Some sch"
    and "find (\<lambda>e. entity_id e = entityId) (entities sch) = Some entity"
    and "distinct (map fst r)"
    and "\<forall>p\<in>set r. \<exists>w. decoded jp entity p = Inr w"
  shows "deserialize jp st entityId (Some r) =
           Inr (map (\<lambda>(k, v).
                  (k, (case fieldByName entity k of
                         None \<Rightarrow> v
                       | Some fld \<Rightarrow>
                           if baseGqlType fld = ''Boolean'' then JBool (v = JNum 1)
                           else if field_kind fld = LIST then projr (jp v)
                           else v))) r)"
proof -
  define g where "g = (\<lambda>k v. (case fieldByName entity k of
                         None \<Rightarrow> v
                       | Some fld \<Rightarrow>
                           if baseGqlType fld = ''Boolean'' then JBool (v = JNum 1)
                           else if field_kind fld = LIST then projr (jp v)
                           else v))"
  from deserialize_loop_result [OF assms(3) subset_refl assms(4)]
  obtain out where out: "deserialize_loop jp entity r r = Inr out"
    and keys: "map fst out = map fst r"
    and look: "\<And>k. map_of out k =
              (case map_of r k of
                 None \<Rightarrow> map_of r k
               | Some v \<Rightarrow>
                   (case fieldByName entity k of
                      None \<Rightarrow> map_of r k
                    | Some f \<Rightarrow> Some (projr (decoded jp entity (k, v)))))"
    by blast
  have fkeys: "map fst (map (\<lambda>(k, v). (k, g k v)) r) = map fst r"
    by (induction r) auto
  have flook: "map_of (map (\<lambda>(k, v). (k, g k v)) r) k = map_option (g k) (map_of r k)" for k
    by (induction r) auto
  have "map_of out k = map_of (map (\<lambda>(k, v). (k, g k v)) r) k" for k
    unfolding look flook
    by (auto simp: decoded_def g_def split: option.splits)
  then have "out = map (\<lambda>(k, v). (k, g k v)) r"
    using alist_eqI [of out "map (\<lambda>(k, v). (k, g k v)) r"] keys fkeys assms(3) by simp
  then show ?thesis using out assms(1,2) by (simp add: deserialize_def g_def)
qed




section \<open>Decoding a shared object\<close>

lemma deserialize_obj_property_value:
  assumes "cells h b = Some acc"
  shows "deserialize_obj_property jp entity b p h =
           (case deserialize_property jp entity acc p of
              Inl e \<Rightarrow> (Inl e, h)
            | Inr acc' \<Rightarrow> (Inr (), h\<lparr>cells := (cells h)(b \<mapsto> acc')\<rparr>))"
  using assms
  by (cases p)
    (simp add: deserialize_obj_property_def deserialize_property_def assign_property_def
      object_at_def fun_upd_idem split: option.splits sum.splits)

lemma deserialize_obj_loop_value:
  assumes "cells h b = Some acc" and "deserialize_loop jp entity acc ps = Inr out"
  shows "deserialize_obj_loop jp entity b ps h = (Inr (), h\<lparr>cells := (cells h)(b \<mapsto> out)\<rparr>)"
  using assms
proof (induction ps arbitrary: h acc)
  case Nil
  then show ?case by (simp add: fun_upd_idem)
next
  case (Cons p ps)
  from Cons.prems(2) obtain acc' where acc': "deserialize_property jp entity acc p = Inr acc'"
    and rest: "deserialize_loop jp entity acc' ps = Inr out"
    by (auto split: sum.splits)
  define h1 where "h1 = h\<lparr>cells := (cells h)(b \<mapsto> acc')\<rparr>"
  have step: "deserialize_obj_property jp entity b p h = (Inr (), h1)"
    using deserialize_obj_property_value [OF Cons.prems(1), of jp entity p] acc'
    by (simp add: h1_def)
  have cell: "cells h1 b = Some acc'" by (simp add: h1_def)
  have upd: "h1\<lparr>cells := (cells h1)(b \<mapsto> out)\<rparr> = h\<lparr>cells := (cells h)(b \<mapsto> out)\<rparr>"
    by (simp add: h1_def)
  have ih: "deserialize_obj_loop jp entity b ps h1 = (Inr (), h\<lparr>cells := (cells h)(b \<mapsto> out)\<rparr>)"
    using Cons.IH [OF cell rest] by (simp only: upd)
  have "deserialize_obj_loop jp entity b (p # ps) h = deserialize_obj_loop jp entity b ps h1"
    by (simp add: step)
  then show ?case by (simp only: ih)
qed

lemma deserialize_obj_loop_error:
  assumes "cells h b = Some acc" and "deserialize_loop jp entity acc ps = Inl e"
  shows "fst (deserialize_obj_loop jp entity b ps h) = Inl e"
  using assms
proof (induction ps arbitrary: h acc)
  case Nil
  then show ?case by simp
next
  case (Cons p ps)
  show ?case
  proof (cases "deserialize_property jp entity acc p")
    case (Inl e')
    then show ?thesis
      using deserialize_obj_property_value [OF Cons.prems(1), of jp entity p] Cons.prems(2)
      by simp
  next
    case (Inr acc')
    define h1 where "h1 = h\<lparr>cells := (cells h)(b \<mapsto> acc')\<rparr>"
    have step: "deserialize_obj_property jp entity b p h = (Inr (), h1)"
      using deserialize_obj_property_value [OF Cons.prems(1), of jp entity p] Inr
      by (simp add: h1_def)
    have cell: "cells h1 b = Some acc'" by (simp add: h1_def)
    have rest: "deserialize_loop jp entity acc' ps = Inl e"
      using Cons.prems(2) Inr by simp
    have "fst (deserialize_obj_loop jp entity b ps h1) = Inl e"
      by (rule Cons.IH [OF cell rest])
    then show ?thesis by (simp add: step)
  qed
qed

text \<open>The loop writes to the copy only.\<close>

lemma deserialize_obj_loop_frame:
  assumes "c \<noteq> b"
  shows "cells (snd (deserialize_obj_loop jp entity b ps h)) c = cells h c"
proof (induction ps arbitrary: h)
  case Nil
  then show ?case by simp
next
  case (Cons p ps)
  obtain k v where p: "p = (k, v)" by (cases p)
  have one: "cells (snd (deserialize_obj_property jp entity b p h)) c = cells h c"
    using assms
    by (simp add: p deserialize_obj_property_def assign_property_def split: option.splits sum.splits)
  obtain res h' where r: "deserialize_obj_property jp entity b p h = (res, h')"
    by (cases "deserialize_obj_property jp entity b p h")
  have h': "cells h' c = cells h c" using one r by simp
  show ?case
  proof (cases res)
    case (Inl e)
    then show ?thesis using r h' by simp
  next
    case (Inr u)
    then show ?thesis using r h' Cons.IH [of h'] by simp
  qed
qed

text \<open>
  Whatever the outcome of \<open>deserialize\<close> (a result or any of its errors), every object
  that existed before the call is as it was.
\<close>

lemma deserialize_obj_frame:
  assumes "c \<noteq> next_ref h"
  shows "cells (snd (deserialize_obj jp st entityId inst h)) c = cells h c"
proof (cases "schema st")
  case None
  then show ?thesis by (simp add: deserialize_obj_def)
next
  case (Some sch)
  show ?thesis
  proof (cases "find (\<lambda>e. entity_id e = entityId) (entities sch)")
    case None
    then show ?thesis using Some by (simp add: deserialize_obj_def)
  next
    case found: (Some entity)
    show ?thesis
    proof (cases inst)
      case None
      then show ?thesis using Some found assms by (simp add: deserialize_obj_def alloc_def)
    next
      case inst: (Some a)
      define h1 where "h1 = h\<lparr>cells := (cells h)(next_ref h \<mapsto> object_at h a),
                               next_ref := Suc (next_ref h)\<rparr>"
      have h1: "cells h1 c = cells h c" using assms by (simp add: h1_def)
      obtain res h2
        where r: "deserialize_obj_loop jp entity (next_ref h) (object_at h1 a) h1 = (res, h2)"
        by (cases "deserialize_obj_loop jp entity (next_ref h) (object_at h1 a) h1")
      have "cells h2 c = cells h1 c"
        using deserialize_obj_loop_frame [OF assms, of jp entity "object_at h1 a" h1] r by simp
      then have h2: "cells h2 c = cells h c" using h1 by simp
      have "snd (deserialize_obj jp st entityId inst h) = h2"
        using Some found inst r
        by (cases res) (simp_all add: deserialize_obj_def alloc_def h1_def)
      then show ?thesis using h2 by simp
    qed
  qed
qed

text \<open>
  The function \<open>deserialize\<close> on rows, which the operations of the store apply to the
  rows that the backend has just returned, gives the outcome of \<open>deserialize_obj\<close> and
  the content of the new object.
\<close>

lemma deserialize_obj_outcome:
  assumes "cells h a = Some r" and "a < next_ref h"
  shows "(case deserialize jp st entityId (Some r) of
            Inl e \<Rightarrow> fst (deserialize_obj jp st entityId (Some a) h) = Inl e
          | Inr out \<Rightarrow>
              fst (deserialize_obj jp st entityId (Some a) h) = Inr (next_ref h)
              \<and> cells (snd (deserialize_obj jp st entityId (Some a) h)) (next_ref h) = Some out)"
proof (cases "schema st")
  case None
  then show ?thesis by (simp add: deserialize_obj_def deserialize_def)
next
  case (Some sch)
  show ?thesis
  proof (cases "find (\<lambda>e. entity_id e = entityId) (entities sch)")
    case None
    then show ?thesis using Some by (simp add: deserialize_obj_def deserialize_def)
  next
    case found: (Some entity)
    define b where "b = next_ref h"
    define h1 where "h1 = h\<lparr>cells := (cells h)(b \<mapsto> r), next_ref := Suc b\<rparr>"
    have ba: "b \<noteq> a" using assms(2) by (simp add: b_def)
    have h1a: "object_at h1 a = r" using ba assms(1) by (simp add: h1_def object_at_def)
    have h1b: "cells h1 b = Some r" by (simp add: h1_def)
    have pure: "deserialize jp st entityId (Some r) = deserialize_loop jp entity r r"
      using Some found by (simp add: deserialize_def)
    have obj: "deserialize_obj jp st entityId (Some a) h =
        (case deserialize_obj_loop jp entity b r h1 of
           (Inl e, h2) \<Rightarrow> (Inl e, h2)
         | (Inr _, h2) \<Rightarrow> (Inr b, h2))"
      using Some found assms(1) h1a
      by (simp add: deserialize_obj_def alloc_def object_at_def b_def [symmetric]
          h1_def [symmetric])
    show ?thesis
    proof (cases "deserialize_loop jp entity r r")
      case (Inl e)
      have "fst (deserialize_obj_loop jp entity b r h1) = Inl e"
        by (rule deserialize_obj_loop_error [OF h1b Inl])
      then show ?thesis
        using pure Inl obj by (cases "deserialize_obj_loop jp entity b r h1") simp
    next
      case (Inr out)
      have "deserialize_obj_loop jp entity b r h1 = (Inr (), h1\<lparr>cells := (cells h1)(b \<mapsto> out)\<rparr>)"
        by (rule deserialize_obj_loop_value [OF h1b Inr])
      then show ?thesis
        using pure Inr obj by (simp add: b_def)
    qed
  qed
qed

text \<open>
  Claim C10. For a store with a schema, an entity of that schema and a reference to a row
  (an object, so its keys are distinct) on whose list-kind properties \<open>JSON.parse\<close>
  succeeds, \<open>deserialize\<close> returns a reference to a new object, different from the given
  one; after the call the given object and every other object hold what they held before;
  the new object has the keys of the given one in the same order, where a property whose
  name is no field of the entity keeps its value, the value of a Boolean-typed field is
  the truth value of "is the integer 1", the value of a list-kind field is what
  \<open>JSON.parse\<close> gives, and the value of any other field is unchanged.
\<close>

theorem deserialize_copies:
  assumes "schema st = Some sch"
    and "find (\<lambda>e. entity_id e = entityId) (entities sch) = Some entity"
    and "cells h a = Some r" and "a < next_ref h"
    and "distinct (map fst r)"
    and "\<forall>p\<in>set r. \<exists>w. decoded jp entity p = Inr w"
  shows "\<exists>b h'. deserialize_obj jp st entityId (Some a) h = (Inr b, h')
           \<and> b \<noteq> a
           \<and> cells h' a = Some r
           \<and> (\<forall>c. c \<noteq> b \<longrightarrow> cells h' c = cells h c)
           \<and> cells h' b =
               Some (map (\<lambda>(k, v).
                  (k, (case fieldByName entity k of
                         None \<Rightarrow> v
                       | Some fld \<Rightarrow>
                           if baseGqlType fld = ''Boolean'' then JBool (v = JNum 1)
                           else if field_kind fld = LIST then projr (jp v)
                           else v))) r)"
proof -
  define out where "out = map (\<lambda>(k, v).
                  (k, (case fieldByName entity k of
                         None \<Rightarrow> v
                       | Some fld \<Rightarrow>
                           if baseGqlType fld = ''Boolean'' then JBool (v = JNum 1)
                           else if field_kind fld = LIST then projr (jp v)
                           else v))) r"
  define b where "b = next_ref h"
  define h1 where "h1 = h\<lparr>cells := (cells h)(b \<mapsto> r), next_ref := Suc b\<rparr>"
  have ba: "b \<noteq> a" using assms(4) by (simp add: b_def)
  have pure: "deserialize_loop jp entity r r = Inr out"
    using deserialize_value [OF assms(1,2,5,6)] assms(1,2)
    by (simp add: deserialize_def out_def)
  have h1a: "object_at h1 a = r" using ba assms(3) by (simp add: h1_def object_at_def)
  have h1b: "cells h1 b = Some r" by (simp add: h1_def)
  have loop: "deserialize_obj_loop jp entity b r h1 = (Inr (), h1\<lparr>cells := (cells h1)(b \<mapsto> out)\<rparr>)"
    by (rule deserialize_obj_loop_value [OF h1b pure])
  define h' where "h' = h1\<lparr>cells := (cells h1)(b \<mapsto> out)\<rparr>"
  have run: "deserialize_obj jp st entityId (Some a) h = (Inr b, h')"
    using assms(1,2,3) loop h1a
    by (simp add: deserialize_obj_def alloc_def object_at_def b_def [symmetric] h1_def [symmetric]
        h'_def)
  have "cells h' a = Some r" using ba assms(3) by (simp add: h'_def h1_def)
  moreover have "\<forall>c. c \<noteq> b \<longrightarrow> cells h' c = cells h c" by (simp add: h'_def h1_def)
  moreover have "cells h' b = Some out" by (simp add: h'_def)
  ultimately show ?thesis using run ba unfolding out_def by blast
qed

theorem deserialize_copies_witness:
  "\<exists>b h'. deserialize_obj parseEmptyArray petStore ''Pet'' (Some 0) exampleObjects = (Inr b, h')
         \<and> b \<noteq> 0
         \<and> cells h' 0 = Some [(''id'', JStr ''p1''), (''vaccinated'', JNum 1),
                                (''tags'', JStr ''[]''), (''extra'', JNum 7)]
         \<and> (\<forall>c. c \<noteq> b \<longrightarrow> cells h' c = cells exampleObjects c)
         \<and> cells h' b = Some [(''id'', JStr ''p1''), (''vaccinated'', JBool True),
                                (''tags'', JArr []), (''extra'', JNum 7)]"
  using deserialize_copies [of petStore petSchema "''Pet''" petEntity exampleObjects 0
      "[(''id'', JStr ''p1''), (''vaccinated'', JNum 1), (''tags'', JStr ''[]''),
        (''extra'', JNum 7)]" parseEmptyArray]
  by (simp add: exampleObjects_def decoded_def petEntity_def petFields_def scalarField_def
      parseEmptyArray_def)

section \<open>The uninitialized store\<close>

text \<open>
  Claim C3. While the store has no schema, \<open>getEntity\<close>, \<open>insertEntity\<close>,
  \<open>updateEntity\<close>, \<open>upsertEntity\<close>, \<open>deleteEntity\<close>, \<open>getEntities\<close> and
  \<open>getEntityDerivedField\<close> fail with the error "EntityStore has not been initialized
  with a schema yet" without a call to the backend, whereas \<open>teardown\<close> and \<open>load\<close> with
  no schema supplied succeed and change neither the store nor the backend.
\<close>

theorem uninitialized_store:
  assumes "schema st = None"
  shows "getEntity jp pq st entityId ident db = (Inl Uninitialized, db)
       \<and> insertEntity gcvp jp pq st entityId ident inst db = (Inl Uninitialized, db)
       \<and> updateEntity gcvp jp pq st entityId ident inst db = (Inl Uninitialized, db)
       \<and> upsertEntity gcvp jp pq st entityId ident inst db = (Inl Uninitialized, db)
       \<and> deleteEntity pq st entityId ident db = (Inl Uninitialized, db)
       \<and> getEntities syms gwv jp pq st entityId flt db = (Inl Uninitialized, db)
       \<and> getEntityDerivedField syms gwv jp pq st entityId ident dfn db = (Inl Uninitialized, db)
       \<and> teardown pq st db = (Inr (), db)
       \<and> load pq None st db = (Inr (), st, db)"
  using assms
  by (simp add: getEntity_def insertEntity_def updateEntity_def upsertEntity_def deleteEntity_def
      getEntities_def getEntityDerivedField_def teardown_def load_def)

theorem uninitialized_store_witness:
  "schema emptyStore = None
   \<and> getEntity parseEmptyArray (answering \<lparr>rows = [], rowCount = 0\<rparr>) emptyStore
        ''Pet'' ''p1'' [] = (Inl Uninitialized, [])
   \<and> getEntities sqlSymbolsForFilterType_spec symbolOnly parseEmptyArray
        (answering \<lparr>rows = [], rowCount = 0\<rparr>) emptyStore ''Pet'' None []
      = (Inl Uninitialized, [])
   \<and> teardown (answering \<lparr>rows = [], rowCount = 0\<rparr>) emptyStore [] = (Inr (), [])
   \<and> load (answering \<lparr>rows = [], rowCount = 0\<rparr>) None emptyStore []
      = (Inr (), emptyStore, [])"
  using uninitialized_store [of emptyStore parseEmptyArray
      "answering \<lparr>rows = [], rowCount = 0\<rparr>" "''Pet''" "''p1''" "[]" quotedColumns "[]"
      sqlSymbolsForFilterType_spec symbolOnly None "''pets''"]
  by simp

section \<open>Writes\<close>




text \<open>
  Claim C4, where the code departs from it. When the backend answers the UPDATE with no
  row (no row has the given id), \<open>rows[0]\<close> is \<open>undefined\<close> and \<open>updateEntity\<close> hands it
  to \<open>deserialize\<close>, which throws a TypeError: the call fails with that error and returns
  no empty result. (\<open>getEntity\<close> tests \<open>rowCount === 0\<close> before it decodes.)
\<close>

theorem updateEntity_no_row:
  assumes "schema st = Some sch"
    and "find (\<lambda>e. entity_id e = entityId) (entities sch) = Some entity"
    and "pq (updateStatement entityId (filter (\<lambda>(column, _). column \<noteq> ''id'') (gcvp inst)))
            (map snd (filter (\<lambda>(column, _). column \<noteq> ''id'') (gcvp inst)) @ [JStr ident]) db
         = (Inr res, db')"
    and "rows res = []"
  shows "updateEntity gcvp jp pq st entityId ident inst db = (Inl TypeError, db')"
  using assms
  by (simp add: updateEntity_def Let_def first_row_def deserialize_def
      split: prod.splits sum.splits)

theorem updateEntity_no_row_witness:
  "updateEntity quotedColumns parseEmptyArray (answering \<lparr>rows = [], rowCount = 0\<rparr>)
      petStore ''Pet'' ''nobody'' [(''ownerId'', JStr ''o1'')] []
   = (Inl TypeError,
      [(''UPDATE '' @ quoted ''Pet'' @ '' SET '' @ quoted ''ownerId'' @ '' = $1 WHERE ''
          @ quoted ''id'' @ '' = $2 RETURNING *'',
        [JStr ''o1'', JStr ''nobody''])])"
  using updateEntity_no_row [of petStore petSchema "''Pet''" petEntity
      "answering \<lparr>rows = [], rowCount = 0\<rparr>" quotedColumns "[(''ownerId'', JStr ''o1'')]"
      "''nobody''" "[]" "\<lparr>rows = [], rowCount = 0\<rparr>"
      "[(updateStatement ''Pet''
           (filter (\<lambda>(column, _). column \<noteq> ''id'') (quotedColumns [(''ownerId'', JStr ''o1'')])),
         map snd
           (filter (\<lambda>(column, _). column \<noteq> ''id'') (quotedColumns [(''ownerId'', JStr ''o1'')]))
           @ [JStr ''nobody''])]"
      parseEmptyArray]
  by (simp add: answering_def updateStatement_def updateFragment_def
      quotedColumns_def quoted_def show_nat.simps digit_char_def upt_conv_Cons)

section \<open>The filter compiler\<close>

lemma splitKey_plain:
  assumes "CHR ''_'' \<notin> set k"
  shows "splitKey k = (k, None)"
proof -
  have all: "\<forall>c\<in>set k. c \<noteq> CHR ''_''" using assms by auto
  have tw: "takeWhile (\<lambda>c. c \<noteq> CHR ''_'') k = k"
    using all by simp
  have dw: "dropWhile (\<lambda>c. c \<noteq> CHR ''_'') k = []"
    using all by simp
  show ?thesis by (simp only: splitKey_def tw dw list.case)
qed

lemma splitKey_underscore:
  assumes "CHR ''_'' \<notin> set f"
  shows "splitKey (f @ CHR ''_'' # t) = (f, Some t)"
proof -
  have all: "\<And>c. c \<in> set f \<Longrightarrow> c \<noteq> CHR ''_''" using assms by auto
  have tw: "takeWhile (\<lambda>c. c \<noteq> CHR ''_'') (f @ CHR ''_'' # t) = f"
    using all by (simp add: takeWhile_append2)
  have dw: "dropWhile (\<lambda>c. c \<noteq> CHR ''_'') (f @ CHR ''_'' # t) = CHR ''_'' # t"
    using all by (simp add: dropWhile_append2)
  show ?thesis by (simp only: splitKey_def tw dw list.case)
qed

lemma whereFragment_key:
  "whereFragment syms gwv (k, v) =
     (case syms (keyFilterType k) of
        None \<Rightarrow> Inl (SqlOperatorsNotFound (keyFilterType k))
      | Some s \<Rightarrow> Inr (quoted (keyFieldName k) @ '' '' @ gwv v s))"
  by (cases "splitKey k")
    (simp add: whereFragment_def keyFilterType_def keyFieldName_def Let_def split: option.splits)


text \<open>
  Claim C1, where the code departs from it. \<open>getEntities\<close> calls \<open>pool.query\<close> with the
  statement alone: for a \<open>where\<close> of one entry whose operator is known, the backend
  receives the empty list of bound values, and the value reaches it only as the text that
  \<open>getWhereValue\<close> makes of it, inside the WHERE clause.
\<close>

theorem getEntities_value_in_statement_text:
  assumes "schema st = Some sch" and "syms (keyFilterType k) = Some s"
  shows "getEntities syms gwv jp (answering res) st entityId (Some (whereOnly [(k, v)])) calls
     = (mapE (\<lambda>r. deserialize jp st entityId (Some r)) (rows res),
        calls @ [(''SELECT * FROM '' @ quoted entityId @ '' WHERE '' @ quoted (keyFieldName k)
                   @ '' '' @ gwv v s, [])])"
  using assms
  by (simp add: getEntities_def getEntitiesStatement_def whereOnly_def whereFragment_key
      pageFragments_def truthy_num_def truthy_str_def answering_def)

theorem getEntities_value_in_statement_text_witness:
  "getEntities sqlSymbolsForFilterType_spec symbolOnly parseEmptyArray
      (answering \<lparr>rows = [], rowCount = 0\<rparr>) petStore ''Pet''
      (Some (whereOnly [(''ownerId'', JStr ''o1'')])) []
     = (Inr [],
        [(''SELECT * FROM '' @ quoted ''Pet'' @ '' WHERE '' @ quoted ''ownerId'' @ ''  ...'', [])])"
  using getEntities_value_in_statement_text [of petStore petSchema sqlSymbolsForFilterType_spec
      "''ownerId''" "[]" symbolOnly parseEmptyArray "\<lparr>rows = [], rowCount = 0\<rparr>" "''Pet''"
      "JStr ''o1''" "[]"]
  by (simp add: keyFilterType_def keyFieldName_def splitKey_def sqlSymbolsForFilterType_spec_def
      symbolOnly_def)

text \<open>Every column has a filter field with its own name (the empty suffix).\<close>

lemma keys_declareSuffixes:
  "fst ` set (declareSuffixes base ty suffixes acc)
     = (\<lambda>s. base @ s) ` set suffixes \<union> fst ` set acc"
  unfolding declareSuffixes_def
  by (induction suffixes arbitrary: acc) (auto simp: dom_update)

lemma keys_filterFields_column:
  "fst ` set acc \<subseteq> fst ` set (filterFields_column (key, col) acc)
   \<and> tsTypeToGqlField key \<in> fst ` set (filterFields_column (key, col) acc)"
  by (auto simp: filterFields_column_def Let_def keys_declareSuffixes operators_universal_def)

lemma keys_fold_filterFields_column:
  "fst ` set acc \<subseteq> fst ` set (fold filterFields_column columns acc)"
proof (induction columns arbitrary: acc)
  case Nil
  then show ?case by simp
next
  case (Cons p ps)
  obtain key col where p: "p = (key, col)" by (cases p)
  have "fst ` set acc \<subseteq> fst ` set (filterFields_column p acc)"
    using keys_filterFields_column [of acc key col] by (simp add: p)
  also have "\<dots> \<subseteq> fst ` set (fold filterFields_column ps (filterFields_column p acc))"
    by (rule Cons.IH)
  finally show ?case by simp
qed

lemma filterFields_declares_column:
  assumes "(key, col) \<in> set columns"
  shows "tsTypeToGqlField key \<in> fst ` set (fold filterFields_column columns acc)"
  using assms
proof (induction columns arbitrary: acc)
  case Nil
  then show ?case by simp
next
  case (Cons p ps)
  show ?case
  proof (cases "p = (key, col)")
    case True
    have "tsTypeToGqlField key \<in> fst ` set (filterFields_column p acc)"
      using keys_filterFields_column [of acc key col] by (simp add: True)
    then show ?thesis
      using keys_fold_filterFields_column [of "filterFields_column p acc" ps] by auto
  next
    case False
    then have "(key, col) \<in> set ps" using Cons.prems by simp
    from Cons.IH [OF this] show ?thesis by simp
  qed
qed

text \<open>
  What \<open>buildWhereObject\<close> makes of keys whose text after the first underscore is an
  operator, is nothing, or is a member inherited from \<open>Object.prototype\<close>.
\<close>

lemma buildWhereObject_operator_example:
  "buildWhereObject [(''age_not_in'', JNum 3), (''name'', JStr ''bob'')]
     = Inr [(''age'', OwnCondition ''notIn'', JNum 3),
            (''name'', OwnCondition ''equals'', JStr ''bob'')]"
  by (simp add: buildWhereObject_def buildWhereObject_entry_def splitKey_def
      graphqlFilterToStoreCondition_def graphqlFilterToStoreCondition_own_def
      objectPrototypeMembers_def)

lemma buildWhereObject_inherited_example:
  "buildWhereObject [(''a_constructor'', JNum 1)]
     = Inr [(''a'', InheritedMember ''constructor'', JNum 1)]"
  by (simp add: buildWhereObject_def buildWhereObject_entry_def splitKey_def
      graphqlFilterToStoreCondition_def graphqlFilterToStoreCondition_own_def
      objectPrototypeMembers_def)

text \<open>
  Claim C5, where the code departs from it. A field name that contains an underscore,
  and whose text after the first underscore is no operator, is a \<open>where\<close> key that the
  plural field itself declares for the column of that name (the empty suffix). Both
  compilers split it at its first underscore, into a shorter field name and an operator
  that does not exist, and fail instead of compiling an equality on the field.
\<close>

theorem underscore_key_rejected:
  assumes "CHR ''_'' \<notin> set f"
    and "graphqlFilterToStoreCondition t = None"
    and "(f @ CHR ''_'' # t, col) \<in> set columns"
  shows "f @ CHR ''_'' # t \<in> fst ` set (filterFields columns)
       \<and> buildWhereObject [(f @ CHR ''_'' # t, v)] = Inl (UnknownWhereCondition f t)
       \<and> (syms t = None \<longrightarrow>
            getEntitiesStatement syms gwv entityId (Some (whereOnly [(f @ CHR ''_'' # t, v)]))
              = Inl (SqlOperatorsNotFound t))"
proof -
  have "f @ CHR ''_'' # t \<noteq> ''bigint''"
  proof
    assume "f @ CHR ''_'' # t = ''bigint''"
    then have "CHR ''_'' \<in> set ''bigint''" by (metis in_set_conv_decomp)
    then show False by simp
  qed
  then have "tsTypeToGqlField (f @ CHR ''_'' # t) = f @ CHR ''_'' # t"
    by (simp add: tsTypeToGqlField_def)
  then have "f @ CHR ''_'' # t \<in> fst ` set (filterFields columns)"
    using filterFields_declares_column [OF assms(3), of "[]"] by (simp add: filterFields_def)
  moreover have "buildWhereObject [(f @ CHR ''_'' # t, v)] = Inl (UnknownWhereCondition f t)"
    using assms(1,2)
    by (simp add: buildWhereObject_def buildWhereObject_entry_def splitKey_underscore)
  moreover have "syms t = None \<longrightarrow>
            getEntitiesStatement syms gwv entityId (Some (whereOnly [(f @ CHR ''_'' # t, v)]))
              = Inl (SqlOperatorsNotFound t)"
    using assms(1)
    by (simp add: getEntitiesStatement_def whereOnly_def whereFragment_def splitKey_underscore)
  ultimately show ?thesis by blast
qed

theorem underscore_key_rejected_witness:
  "''owner_id'' \<in> fst ` set (filterFields dogColumns)
   \<and> buildWhereObject [(''owner_id'', JStr ''o1'')] = Inl (UnknownWhereCondition ''owner'' ''id'')
   \<and> getEntitiesStatement sqlSymbolsForFilterType_spec symbolOnly ''Dog''
        (Some (whereOnly [(''owner_id'', JStr ''o1'')])) = Inl (SqlOperatorsNotFound ''id'')"
  using underscore_key_rejected [of "''owner''" "''id''"
      "\<lparr>column_type = Sc_string, column_optional = False, column_list = False\<rparr>" dogColumns
      "JStr ''o1''" sqlSymbolsForFilterType_spec symbolOnly "''Dog''"]
  by (simp add: graphqlFilterToStoreCondition_def graphqlFilterToStoreCondition_own_def
      objectPrototypeMembers_def dogColumns_def sqlSymbolsForFilterType_spec_def)




section \<open>Ordering and pagination\<close>

text \<open>
  The statement for the filter \<open>{first: 2, skip: 1, orderBy: "id", orderDirection: "asc"}\<close>,
  and for a \<open>skip\<close> without \<open>first\<close>.
\<close>

lemma getEntities_page_example:
  "getEntitiesStatement syms gwv ''e''
     (Some \<lparr>filter_where = None, filter_first = Some 2, filter_skip = Some 1,
            filter_orderBy = Some ''id'', filter_orderDirection = Some ''asc''\<rparr>)
   = Inr (''SELECT * FROM '' @ quoted ''e'' @ '' ORDER BY '' @ quoted ''id''
            @ '' asc LIMIT 2 OFFSET 1'')"
  by (simp add: getEntitiesStatement_def pageFragments_def truthy_num_def truthy_str_def
      show_int_def show_nat.simps digit_char_def quoted_def)

lemma getEntities_skip_only_example:
  "getEntitiesStatement syms gwv ''e''
     (Some \<lparr>filter_where = None, filter_first = None, filter_skip = Some 3,
            filter_orderBy = None, filter_orderDirection = None\<rparr>)
   = Inr (''SELECT * FROM '' @ quoted ''e'' @ '' LIMIT -1 OFFSET 3'')"
  by (simp add: getEntitiesStatement_def pageFragments_def truthy_num_def truthy_str_def
      show_int_def show_nat.simps digit_char_def quoted_def)

text \<open>
  Claim C8, where the code departs from it. The test \<open>if (first)\<close> takes the limit 0 for
  an absent limit: a filter with \<open>first: 0\<close> compiles to the very statement of the same
  filter without \<open>first\<close>, so the statement has no clause that caps the row count at 0.
\<close>

theorem getEntities_first_zero:
  "getEntitiesStatement syms gwv entityId (Some (flt\<lparr>filter_first := Some 0\<rparr>))
     = getEntitiesStatement syms gwv entityId (Some (flt\<lparr>filter_first := None\<rparr>))"
  by (simp add: getEntitiesStatement_def pageFragments_def truthy_num_def cong: sum.case_cong)

theorem getEntities_first_zero_witness:
  "getEntitiesStatement sqlSymbolsForFilterType_spec symbolOnly ''Pet''
     (Some \<lparr>filter_where = None, filter_first = Some 0, filter_skip = None,
            filter_orderBy = Some ''id'', filter_orderDirection = None\<rparr>)
   = Inr (''SELECT * FROM '' @ quoted ''Pet'' @ '' ORDER BY '' @ quoted ''id'')"
  using getEntities_first_zero [of sqlSymbolsForFilterType_spec symbolOnly "''Pet''"
      "\<lparr>filter_where = None, filter_first = Some 0, filter_skip = None,
        filter_orderBy = Some ''id'', filter_orderDirection = None\<rparr>"]
  by (simp add: getEntitiesStatement_def pageFragments_def truthy_num_def truthy_str_def
      quoted_def)

section \<open>Derived fields\<close>

lemma getEntityDerivedField_found:
  assumes "schema st = Some sch"
    and "find (\<lambda>e. entity_id e = entityId) (entities sch) = Some entity"
    and "find (\<lambda>fld. field_kind fld = DERIVED \<and> field_name fld = dfn) (entity_fields entity)
           = Some df"
    and "find (\<lambda>e. entity_name e = derivedFromEntityName df) (entities sch) = Some target"
  shows "getEntityDerivedField syms gwv jp pq st entityId instanceId dfn db
           = getEntities syms gwv jp pq st (entity_id target)
               (Some (whereOnly [(derivedFromFieldName df, JStr instanceId)])) db"
  using assms by (simp add: getEntityDerivedField_def)

text \<open>The list call with a \<open>where\<close> of one entry: the one statement it issues.\<close>

lemma getEntities_one_entry:
  assumes "schema st = Some sch"
  shows "getEntities syms gwv jp pq st entityId (Some (whereOnly [(k, v)])) db =
           (case syms (keyFilterType k) of
              None \<Rightarrow> (Inl (SqlOperatorsNotFound (keyFilterType k)), db)
            | Some s \<Rightarrow>
                (case pq (''SELECT * FROM '' @ quoted entityId @ '' WHERE ''
                            @ quoted (keyFieldName k) @ '' '' @ gwv v s) [] db of
                   (Inl e, db') \<Rightarrow> (Inl e, db')
                 | (Inr res, db') \<Rightarrow>
                     (mapE (\<lambda>r. deserialize jp st entityId (Some r)) (rows res), db')))"
  using assms
  by (simp add: getEntities_def getEntitiesStatement_def whereOnly_def whereFragment_key
      pageFragments_def truthy_num_def truthy_str_def split: option.splits)

lemma key_parts_underscore:
  "CHR ''_'' \<notin> set f \<Longrightarrow>
   keyFieldName (f @ CHR ''_'' # t) = f \<and> keyFilterType (f @ CHR ''_'' # t) = t"
  by (simp add: keyFieldName_def keyFilterType_def splitKey_underscore)

lemma key_parts_plain:
  "CHR ''_'' \<notin> set k \<Longrightarrow> keyFieldName k = k \<and> keyFilterType k = []"
  by (simp add: keyFieldName_def keyFilterType_def splitKey_plain)

text \<open>
  The parts of claim C9 that hold. With a schema set and \<open>entityId\<close> naming an entity of
  it: when no field of the entity is of derived kind with the given name, the call fails
  with "Derived field not found"; when the derived field names no entity of the schema,
  it fails with "Entity not found in schema for name".
\<close>

lemma getEntityDerivedField_not_found:
  assumes "schema st = Some sch"
    and "find (\<lambda>e. entity_id e = entityId) (entities sch) = Some entity"
  shows "((\<forall>fld\<in>set (entity_fields entity).
             \<not> (field_kind fld = DERIVED \<and> field_name fld = dfn)) \<longrightarrow>
          getEntityDerivedField syms gwv jp pq st entityId instanceId dfn db
            = (Inl (DerivedFieldNotFound (entity_name entity) dfn), db))
       \<and> (\<forall>df. find (\<lambda>fld. field_kind fld = DERIVED \<and> field_name fld = dfn)
                   (entity_fields entity) = Some df \<longrightarrow>
            (\<forall>e\<in>set (entities sch). entity_name e \<noteq> derivedFromEntityName df) \<longrightarrow>
               getEntityDerivedField syms gwv jp pq st entityId instanceId dfn db
                 = (Inl (EntityNotFoundForName (derivedFromEntityName df)), db))"
proof (intro conjI impI allI)
  assume "\<forall>fld\<in>set (entity_fields entity). \<not> (field_kind fld = DERIVED \<and> field_name fld = dfn)"
  then have "find (\<lambda>fld. field_kind fld = DERIVED \<and> field_name fld = dfn) (entity_fields entity)
      = None"
    by (simp add: find_None_iff)
  then show "getEntityDerivedField syms gwv jp pq st entityId instanceId dfn db
            = (Inl (DerivedFieldNotFound (entity_name entity) dfn), db)"
    using assms by (simp add: getEntityDerivedField_def)
next
  fix df
  assume df: "find (\<lambda>fld. field_kind fld = DERIVED \<and> field_name fld = dfn)
                   (entity_fields entity) = Some df"
    and "\<forall>e\<in>set (entities sch). entity_name e \<noteq> derivedFromEntityName df"
  then have "find (\<lambda>e. entity_name e = derivedFromEntityName df) (entities sch) = None"
    by (simp add: find_None_iff)
  then show "getEntityDerivedField syms gwv jp pq st entityId instanceId dfn db
                 = (Inl (EntityNotFoundForName (derivedFromEntityName df)), db)"
    using assms df by (simp add: getEntityDerivedField_def)
qed

text \<open>
  When the derived field and its target entity are found and \<open>derivedFromFieldName\<close> has
  no underscore, the backend receives one statement, whose WHERE clause is the equality
  predicate (the symbols of the empty operator) on that field for the instance id.
\<close>

lemma getEntityDerivedField_plain_name:
  assumes "schema st = Some sch"
    and "find (\<lambda>e. entity_id e = entityId) (entities sch) = Some entity"
    and "find (\<lambda>fld. field_kind fld = DERIVED \<and> field_name fld = dfn) (entity_fields entity)
           = Some df"
    and "find (\<lambda>e. entity_name e = derivedFromEntityName df) (entities sch) = Some target"
    and "CHR ''_'' \<notin> set (derivedFromFieldName df)" and "syms [] = Some s"
  shows "getEntityDerivedField syms gwv jp (answering res) st entityId instanceId dfn calls
              = (mapE (\<lambda>r. deserialize jp st (entity_id target) (Some r)) (rows res),
                 calls @ [(''SELECT * FROM '' @ quoted (entity_id target) @ '' WHERE ''
                             @ quoted (derivedFromFieldName df) @ '' ''
                             @ gwv (JStr instanceId) s, [])])"
  using assms(6)
  by (simp add: getEntityDerivedField_found [OF assms(1-4)] getEntities_one_entry [OF assms(1)]
      key_parts_plain [OF assms(5)] answering_def)

text \<open>
  Claim C9, where the code departs from it. \<open>getEntityDerivedField\<close> passes
  \<open>derivedFromFieldName\<close> as a \<open>where\<close> key, and \<open>getEntities\<close> splits every key at its
  first underscore. When the field name contains an underscore, the call is therefore no
  equality filter on that field: it fails with "SQL operators not found for filter type"
  when the text after the underscore is no operator, and otherwise it filters the field
  named by the text before the underscore with that operator.
\<close>

theorem derived_field_name_with_underscore:
  assumes "schema st = Some sch"
    and "find (\<lambda>e. entity_id e = entityId) (entities sch) = Some entity"
    and "find (\<lambda>fld. field_kind fld = DERIVED \<and> field_name fld = dfn) (entity_fields entity)
           = Some df"
    and "find (\<lambda>e. entity_name e = derivedFromEntityName df) (entities sch) = Some target"
    and "derivedFromFieldName df = f @ CHR ''_'' # t" and "CHR ''_'' \<notin> set f"
  shows "(syms t = None \<longrightarrow>
            getEntityDerivedField syms gwv jp pq st entityId instanceId dfn db
              = (Inl (SqlOperatorsNotFound t), db))
       \<and> (\<forall>s. syms t = Some s \<longrightarrow>
            getEntityDerivedField syms gwv jp (answering res) st entityId instanceId dfn calls
              = (mapE (\<lambda>r. deserialize jp st (entity_id target) (Some r)) (rows res),
                 calls @ [(''SELECT * FROM '' @ quoted (entity_id target) @ '' WHERE ''
                             @ quoted f @ '' '' @ gwv (JStr instanceId) s, [])]))"
  using assms(5)
  by (simp add: getEntityDerivedField_found [OF assms(1-4)] getEntities_one_entry [OF assms(1)]
      key_parts_underscore [OF assms(6)] answering_def)

theorem derived_field_name_with_underscore_witness:
  "getEntityDerivedField sqlSymbolsForFilterType_spec symbolOnly parseEmptyArray
      (answering \<lparr>rows = [], rowCount = 0\<rparr>) dogStore ''Person'' ''p1'' ''dogs'' []
     = (Inl (SqlOperatorsNotFound ''id''), [])
   \<and> getEntityDerivedField sqlSymbolsForFilterType_spec symbolOnly parseEmptyArray
      (answering \<lparr>rows = [], rowCount = 0\<rparr>) dogStore ''Person'' ''p1'' ''kennels'' []
     = (Inr [], [(''SELECT * FROM '' @ quoted ''Kennel'' @ '' WHERE '' @ quoted ''owner''
                    @ '' in ...'', [])])"
  using derived_field_name_with_underscore [of dogStore dogSchema "''Person''" personEntity
      "''dogs''" "derivedField ''dogs'' ''Dog'' ''Dog'' ''owner_id''" dogEntity "''owner''" "''id''"
      sqlSymbolsForFilterType_spec symbolOnly parseEmptyArray
      "answering \<lparr>rows = [], rowCount = 0\<rparr>" "''p1''" "[]" "\<lparr>rows = [], rowCount = 0\<rparr>" "[]"]
    derived_field_name_with_underscore [of dogStore dogSchema "''Person''" personEntity
      "''kennels''" "derivedField ''kennels'' ''Kennel'' ''Kennel'' ''owner_in''" kennelEntity
      "''owner''" "''in''"
      sqlSymbolsForFilterType_spec symbolOnly parseEmptyArray
      "answering \<lparr>rows = [], rowCount = 0\<rparr>" "''p1''" "[]" "\<lparr>rows = [], rowCount = 0\<rparr>" "[]"]
  by (simp add: dogStore_def dogSchema_def dogEntity_def kennelEntity_def personEntity_def
      personFields_def derivedField_def scalarField_def sqlSymbolsForFilterType_spec_def
      symbolOnly_def)

end
